theory Spec2Isabelle
  imports Complex_Main
begin

section \<open>Single-precision arithmetic\<close>

text \<open>
  The program computes with C \<^verbatim>\<open>float\<close>, IEEE 754 binary32: 24 bits of precision,
  exponents from -126 to 127, round to nearest with ties to even, gradual underflow,
  overflow to infinity, and NaN for invalid operations. A value is a rational, an infinity
  or NaN. The two zeros are one value \<open>Fin 0\<close>: the comparisons of the program do not
  tell them apart, and \<open>fdiv\<close> takes a zero divisor as the positive zero, which is what
  a converted \<^verbatim>\<open>int\<close> count gives. The one divisor of the program that can be a
  negative zero, in \<^verbatim>\<open>get_random_float\<close>, has its sign worked out there. Every
  operation is evaluated in binary32 with one rounding.
\<close>

datatype float = Fin rat | PInf | NInf | NaN

definition pow2 :: "int \<Rightarrow> rat" where
  "pow2 e = (if 0 \<le> e then 2 ^ nat e else 1 / 2 ^ nat (- e))"

function bit_length :: "int \<Rightarrow> int" where
  "bit_length n = (if n \<le> 0 then 0 else 1 + bit_length (n div 2))"
  by pat_completeness auto
termination
  by (relation "measure nat") auto

declare bit_length.simps [simp del]

text \<open>The exponent \<open>e\<close> with \<open>2 ^ e \<le> q < 2 ^ (e + 1)\<close>, for a positive \<open>q\<close>.\<close>

definition floor_log2 :: "rat \<Rightarrow> int" where
  "floor_log2 q =
     (let (n, d) = quotient_of q;
          k = bit_length n - bit_length d
      in if pow2 k \<le> q then k else k - 1)"

definition round_half_even :: "rat \<Rightarrow> int" where
  "round_half_even q =
     (let f = \<lfloor>q\<rfloor>; r = q - of_int f
      in if r < 1 / 2 then f
         else if 1 / 2 < r then f + 1
         else if even f then f else f + 1)"

text \<open>
  Rounding a rational to binary32: the spacing of the floats around \<open>q\<close> is
  \<open>2 ^ (e - 23)\<close>, where \<open>e\<close> is the exponent of \<open>q\<close>, at least -126 (below that
  the subnormal floats are spaced \<open>2 ^ - 149\<close> apart); a result that reaches
  \<open>2 ^ 128\<close> is an infinity.
\<close>

definition round_f32 :: "rat \<Rightarrow> float" where
  "round_f32 q =
     (if q = 0 then Fin 0
      else let a = \<bar>q\<bar>;
               e = max (floor_log2 a) (- 126);
               u = pow2 (e - 23);
               r = of_int (round_half_even (a / u)) * u
           in if pow2 128 \<le> r then (if q < 0 then NInf else PInf)
              else Fin (if q < 0 then - r else r))"

function isqrt :: "int \<Rightarrow> int" where
  "isqrt n =
     (if n < 2 then max n 0
      else let r = 2 * isqrt (n div 4)
           in if (r + 1) * (r + 1) \<le> n then r + 1 else r)"
  by pat_completeness auto
termination
  by (relation "measure nat") auto

declare isqrt.simps [simp del]

text \<open>
  The correctly rounded square root of a positive rational: the integer square root of
  \<open>q\<close> scaled to at least 27 bits, with half a unit added when the root is not exact,
  rounds as the real root does.
\<close>

definition sqrt_rat :: "rat \<Rightarrow> float" where
  "sqrt_rat q =
     (let s = 26 - floor_log2 q div 2;
          t = q * pow2 (2 * s);
          m = isqrt \<lfloor>t\<rfloor>
      in round_f32 ((of_int m + (if of_int (m * m) = t then 0 else 1 / 2)) * pow2 (- s)))"

fun fneg :: "float \<Rightarrow> float" where
  "fneg (Fin a) = Fin (- a)"
| "fneg PInf = NInf"
| "fneg NInf = PInf"
| "fneg NaN = NaN"

fun fadd :: "float \<Rightarrow> float \<Rightarrow> float" where
  "fadd (Fin a) (Fin b) = round_f32 (a + b)"
| "fadd NaN _ = NaN"
| "fadd _ NaN = NaN"
| "fadd PInf NInf = NaN"
| "fadd NInf PInf = NaN"
| "fadd PInf _ = PInf"
| "fadd NInf _ = NInf"
| "fadd (Fin a) b = b"

definition fsub :: "float \<Rightarrow> float \<Rightarrow> float" where
  "fsub a b = fadd a (fneg b)"

fun fsgn :: "float \<Rightarrow> int" where
  "fsgn (Fin a) = (if a < 0 then - 1 else if a = 0 then 0 else 1)"
| "fsgn PInf = 1"
| "fsgn NInf = - 1"
| "fsgn NaN = 0"

definition inf_of_sign :: "int \<Rightarrow> float" where
  "inf_of_sign s = (if s = 0 then NaN else if s < 0 then NInf else PInf)"

fun fmul :: "float \<Rightarrow> float \<Rightarrow> float" where
  "fmul (Fin a) (Fin b) = round_f32 (a * b)"
| "fmul NaN _ = NaN"
| "fmul _ NaN = NaN"
| "fmul a b = inf_of_sign (fsgn a * fsgn b)"

text \<open>Division: \<open>0 / 0\<close> and \<open>\<infinity> / \<infinity>\<close> are NaN, a non-zero value over zero is an infinity.\<close>

fun fdiv :: "float \<Rightarrow> float \<Rightarrow> float" where
  "fdiv (Fin a) (Fin b) =
     (if b = 0 then inf_of_sign (fsgn (Fin a)) else round_f32 (a / b))"
| "fdiv NaN _ = NaN"
| "fdiv _ NaN = NaN"
| "fdiv (Fin a) _ = Fin 0"
| "fdiv a (Fin b) = inf_of_sign (fsgn a * (if b < 0 then - 1 else 1))"
| "fdiv _ _ = NaN"

text \<open>The comparison \<^verbatim>\<open><\<close>: false as soon as one side is NaN.\<close>

fun flt :: "float \<Rightarrow> float \<Rightarrow> bool" where
  "flt (Fin a) (Fin b) = (a < b)"
| "flt NaN _ = False"
| "flt _ NaN = False"
| "flt PInf _ = False"
| "flt _ NInf = False"
| "flt _ _ = True"

definition fgt :: "float \<Rightarrow> float \<Rightarrow> bool" where
  "fgt a b = flt b a"

fun sqrtf :: "float \<Rightarrow> float" where
  "sqrtf (Fin a) = (if a < 0 then NaN else if a = 0 then Fin 0 else sqrt_rat a)"
| "sqrtf PInf = PInf"
| "sqrtf NInf = NaN"
| "sqrtf NaN = NaN"

text \<open>
  A \<^verbatim>\<open>double\<close> is a value of the same type (a rational with more bits); passing it
  for a \<^verbatim>\<open>float\<close> parameter rounds it.
\<close>

fun float_of_double :: "float \<Rightarrow> float" where
  "float_of_double (Fin a) = round_f32 a"
| "float_of_double a = a"

definition float_of_int :: "int \<Rightarrow> float" where
  "float_of_int i = round_f32 (of_int i)"

definition FLT_MAX :: float where
  "FLT_MAX = Fin ((2 ^ 24 - 1) * 2 ^ 104)"

definition INT_MAX :: int where
  "INT_MAX = 2147483647"

section \<open>Data model\<close>

text \<open>
  The structs of \<^verbatim>\<open>main.c\<close>; \<open>Vector2\<close> is raylib's pair of floats. In the two
  dynamic arrays \<open>items\<close> lists the elements of the buffer, and \<open>count\<close> and
  \<open>capacity\<close> are the \<^verbatim>\<open>int\<close> fields. The unassigned sentinel of
  \<open>cluster\<close> is \<open>- 1\<close>.
\<close>

record Mean =
  mean_x :: float
  mean_y :: float
  total :: int

record Vector2 =
  x :: float
  y :: float

record Sample =
  x :: float
  y :: float
  cluster :: int

record Samples =
  items :: "Sample list"
  count :: int
  capacity :: int

record Centroids =
  items :: "Vector2 list"
  count :: int
  capacity :: int

text \<open>
  What stops the program instead of returning: the assertion of \<^verbatim>\<open>da_append\<close>, and
  the undefined behaviours the functions can reach (signed overflow of the doubled
  capacity, an access outside the accumulator buffer, an access through a null buffer).
\<close>

datatype error = AssertionFailed | SignedOverflow | OutOfBounds | NullDeref

section \<open>Sample generation\<close>

definition INITIAL_CAPACITY :: int where
  "INITIAL_CAPACITY = 10"

text \<open>
  The macro \<^verbatim>\<open>da_append\<close> at the \<open>Samples\<close> array. \<open>realloc_ok cap\<close> tells whether
  \<^verbatim>\<open>realloc\<close> grants a buffer of \<open>cap\<close> elements; when it does not, the assertion
  fails.
\<close>

definition da_append :: "(int \<Rightarrow> bool) \<Rightarrow> Samples \<Rightarrow> Sample \<Rightarrow> error + Samples" where
  "da_append realloc_ok array item =
     (if Samples.capacity array \<le> Samples.count array then
        if Samples.capacity array \<noteq> 0 \<and> INT_MAX < Samples.capacity array * 2
        then Inl SignedOverflow
        else
          let cap = (if Samples.capacity array = 0 then INITIAL_CAPACITY
                     else Samples.capacity array * 2)
          in if \<not> realloc_ok cap then Inl AssertionFailed
             else Inr (array\<lparr>Samples.items := Samples.items array @ [item],
                              Samples.count := Samples.count array + 1,
                              Samples.capacity := cap\<rparr>)
      else Inr (array\<lparr>Samples.items := Samples.items array @ [item],
                       Samples.count := Samples.count array + 1\<rparr>))"

text \<open>
  \<^verbatim>\<open>(float)rand() / (float)(RAND_MAX / (max - min)) + min\<close>, with the value \<open>r\<close>
  that \<^verbatim>\<open>rand()\<close> returned and the library's \<^verbatim>\<open>RAND_MAX\<close> as parameters.
  The inner quotient is a zero when the difference is infinite (or \<^verbatim>\<open>RAND_MAX\<close> is
  0), and that zero is negative when the signs of \<^verbatim>\<open>RAND_MAX\<close> and of the
  difference differ; dividing by the negative zero gives the opposite of dividing by the
  positive one.
\<close>

definition get_random_float :: "int \<Rightarrow> int \<Rightarrow> float \<Rightarrow> float \<Rightarrow> float" where
  "get_random_float rand_max r min_f max_f =
     (let span = fsub max_f min_f;
          scale = fdiv (float_of_int rand_max) span;
          quot = fdiv (float_of_int r) scale
      in fadd (if scale = Fin 0 \<and> ((rand_max < 0) \<noteq> (fsgn span < 0))
               then fneg quot else quot) min_f)"

text \<open>
  The sample of round \<open>i\<close> of \<^verbatim>\<open>generate_samples\<close>; \<open>rnd j\<close> is the result of
  the \<open>j\<close>-th call of \<^verbatim>\<open>rand()\<close> made by the loop, two calls a round.
\<close>

definition next_sample :: "int \<Rightarrow> (nat \<Rightarrow> int) \<Rightarrow> Vector2 \<Rightarrow> float \<Rightarrow> nat \<Rightarrow> Sample" where
  "next_sample rand_max rnd center radius i =
     \<lparr>Sample.x = fadd (Vector2.x center)
                     (get_random_float rand_max (rnd (2 * i))
                        (float_of_double (fneg radius)) (float_of_double radius)),
      y = fadd (Vector2.y center)
               (get_random_float rand_max (rnd (2 * i + 1))
                  (float_of_double (fneg radius)) (float_of_double radius)),
      cluster = - 1\<rparr>"

fun generate_loop ::
  "(int \<Rightarrow> bool) \<Rightarrow> (nat \<Rightarrow> Sample) \<Rightarrow> nat list \<Rightarrow> Samples \<Rightarrow> error + Samples" where
  "generate_loop realloc_ok mk [] s = Inr s"
| "generate_loop realloc_ok mk (i # is) s =
     (case da_append realloc_ok s (mk i) of
        Inl e \<Rightarrow> Inl e
      | Inr s' \<Rightarrow> generate_loop realloc_ok mk is s')"

definition generate_samples ::
  "(int \<Rightarrow> bool) \<Rightarrow> int \<Rightarrow> (nat \<Rightarrow> int) \<Rightarrow> Samples \<Rightarrow> Vector2 \<Rightarrow> nat \<Rightarrow> float
     \<Rightarrow> error + Samples" where
  "generate_samples realloc_ok rand_max rnd s center num_samples radius =
     generate_loop realloc_ok (next_sample rand_max rnd center radius) [0..<num_samples] s"

section \<open>The assignment step\<close>

definition distance :: "Sample \<Rightarrow> Vector2 \<Rightarrow> float" where
  "distance sample centroid =
     sqrtf (fadd (fmul (fsub (Sample.x sample) (Vector2.x centroid))
                       (fsub (Sample.x sample) (Vector2.x centroid)))
                 (fmul (fsub (Sample.y sample) (Vector2.y centroid))
                       (fsub (Sample.y sample) (Vector2.y centroid))))"

text \<open>One round of the inner loop of \<^verbatim>\<open>assign_step\<close>, at centroid \<open>k\<close>.\<close>

definition assign_centroid :: "Centroids \<Rightarrow> nat \<Rightarrow> float \<times> Sample \<Rightarrow> float \<times> Sample" where
  "assign_centroid c k = (\<lambda>(best_distance, sample).
     let centroid = Centroids.items c ! k;
         curr_distance = distance sample centroid
     in if flt curr_distance best_distance
        then (curr_distance, sample\<lparr>cluster := int k\<rparr>)
        else (best_distance, sample))"

definition assign_sample :: "Centroids \<Rightarrow> Sample \<Rightarrow> Sample" where
  "assign_sample c sample =
     snd (fold (assign_centroid c) [0..<nat (Centroids.count c)] (FLT_MAX, sample))"

definition assign_step :: "Centroids \<Rightarrow> Samples \<Rightarrow> Samples" where
  "assign_step c s =
     s\<lparr>Samples.items :=
         fold (\<lambda>i its. its[i := assign_sample c (its ! i)])
              [0..<nat (Samples.count s)] (Samples.items s)\<rparr>"

section \<open>The update step\<close>

text \<open>
  One round of the second loop of \<^verbatim>\<open>update_step\<close>: the accumulator is indexed by
  the sample's \<open>cluster\<close> with no check, so an index outside the buffer is an error of
  the model.
\<close>

definition accumulate :: "Sample \<Rightarrow> Mean list \<Rightarrow> error + Mean list" where
  "accumulate sample mean_array =
     (let j = cluster sample
      in if j < 0 \<or> int (length mean_array) \<le> j then Inl OutOfBounds
         else let m = mean_array ! nat j
              in Inr (mean_array[nat j :=
                        m\<lparr>mean_x := fadd (mean_x m) (Sample.x sample),
                          mean_y := fadd (mean_y m) (Sample.y sample),
                          total := total m + 1\<rparr>]))"

fun accumulate_loop :: "Samples \<Rightarrow> nat list \<Rightarrow> Mean list \<Rightarrow> error + Mean list" where
  "accumulate_loop s [] mean_array = Inr mean_array"
| "accumulate_loop s (i # is) mean_array =
     (case accumulate (Samples.items s ! i) mean_array of
        Inl e \<Rightarrow> Inl e
      | Inr mean_array' \<Rightarrow> accumulate_loop s is mean_array')"

text \<open>One round of the third loop: the division by the converted count, and the store.\<close>

definition store_mean :: "Mean list \<Rightarrow> nat \<Rightarrow> Vector2 list \<Rightarrow> Vector2 list" where
  "store_mean mean_array k its =
     (let m = mean_array ! k;
          mx = fdiv (mean_x m) (float_of_int (total m));
          my = fdiv (mean_y m) (float_of_int (total m))
      in its[k := (its ! k)\<lparr>Vector2.x := mx, Vector2.y := my\<rparr>])"

definition alloc_error :: string where
  "alloc_error =
     ''ERORR: Could not allocate memory for mean_array on update_step method'' @ [CHR 0x0A]"

text \<open>
  \<^verbatim>\<open>update_step\<close>; \<open>malloc_ok\<close> tells whether \<^verbatim>\<open>malloc\<close> returned a buffer.
  The result is the centroids and what the call wrote to the standard error stream. The
  first loop leaves every accumulator zero.
\<close>

definition update_step :: "bool \<Rightarrow> Centroids \<Rightarrow> Samples \<Rightarrow> error + Centroids \<times> string list" where
  "update_step malloc_ok c s =
     (if \<not> malloc_ok then Inr (c, [alloc_error])
      else
        case accumulate_loop s [0..<nat (Samples.count s)]
               (replicate (nat (Centroids.count c)) \<lparr>mean_x = Fin 0, mean_y = Fin 0, total = 0\<rparr>) of
          Inl e \<Rightarrow> Inl e
        | Inr mean_array \<Rightarrow>
            Inr (c\<lparr>Centroids.items :=
                     fold (store_mean mean_array) [0..<nat (Centroids.count c)] (Centroids.items c)\<rparr>,
                 []))"

section \<open>Convergence and the controller\<close>

definition EPSILON :: float where
  "EPSILON = round_f32 (1 / 10000)"

fun converged_loop :: "Centroids \<Rightarrow> Centroids \<Rightarrow> nat list \<Rightarrow> bool" where
  "converged_loop previus centroids [] = True"
| "converged_loop previus centroids (i # is) =
     (let dx = fsub (Vector2.x (Centroids.items previus ! i))
                    (Vector2.x (Centroids.items centroids ! i));
          dy = fsub (Vector2.y (Centroids.items previus ! i))
                    (Vector2.y (Centroids.items centroids ! i))
      in if fgt (fadd (fmul dx dx) (fmul dy dy)) EPSILON then False
         else converged_loop previus centroids is)"

definition converged :: "Centroids \<Rightarrow> Centroids \<Rightarrow> bool" where
  "converged previus centroids =
     (if Centroids.count previus \<noteq> Centroids.count centroids then False
      else converged_loop previus centroids [0..<nat (Centroids.count centroids)])"

definition memcpy :: "'a list \<Rightarrow> 'a list \<Rightarrow> nat \<Rightarrow> 'a list" where
  "memcpy dst src n = take n src @ drop n dst"

text \<open>
  The loop of \<^verbatim>\<open>run_kmeans\<close>, which may run forever: \<open>None\<close> is the run that does
  not return. The test comes first, as in the \<^verbatim>\<open>while\<close> of the source.
  \<open>malloc_ok n\<close> tells whether the allocation of the \<open>n\<close>-th update succeeds, and
  \<open>err\<close> collects what is written to the standard error stream.
\<close>

partial_function (option) kmeans_loop ::
  "(nat \<Rightarrow> bool) \<Rightarrow> nat \<Rightarrow> Centroids \<Rightarrow> Centroids \<Rightarrow> Samples \<Rightarrow> string list
     \<Rightarrow> (error + Centroids \<times> Samples \<times> string list) option" where
  "kmeans_loop malloc_ok n previous c s err =
     (if converged previous c then Some (Inr (c, s, err))
      else
        let previous' = previous\<lparr>Centroids.count := Centroids.count c,
                                 Centroids.items := memcpy (Centroids.items previous)
                                                     (Centroids.items c) (nat (Centroids.count c))\<rparr>;
            s' = assign_step c s
        in case update_step (malloc_ok n) c s' of
             Inl e \<Rightarrow> Some (Inl e)
           | Inr (c', msgs) \<Rightarrow> kmeans_loop malloc_ok (Suc n) previous' c' s' (err @ msgs))"

declare kmeans_loop.simps [code]

text \<open>
  \<^verbatim>\<open>run_kmeans\<close>. The local \<^verbatim>\<open>previous\<close> is not initialised before the first
  test of the loop: \<open>prev_count\<close> is the value its \<open>count\<close> field happens to hold, and
  \<open>prev_items\<close> is what \<^verbatim>\<open>malloc\<close> returned, \<open>None\<close> for a null pointer and
  otherwise the contents the fresh buffer of \<open>capacity\<close> elements happens to hold. The
  result of \<^verbatim>\<open>malloc\<close> is not checked; with a null buffer the first access to an
  element is an error of the model. The result is the centroids, the samples, the
  accumulator and the standard error stream.
\<close>

definition run_kmeans ::
  "Vector2 list option \<Rightarrow> int \<Rightarrow> (nat \<Rightarrow> bool) \<Rightarrow> Centroids \<Rightarrow> Samples \<Rightarrow> float
     \<Rightarrow> (error + Centroids \<times> Samples \<times> float \<times> string list) option" where
  "run_kmeans prev_items prev_count malloc_ok c s t =
     (if flt t (Fin 1) then Some (Inr (c, s, t, []))
      else if prev_items = None \<and> 0 < Centroids.count c then Some (Inl NullDeref)
      else
        let previous = \<lparr>Centroids.items = (case prev_items of None \<Rightarrow> [] | Some buf \<Rightarrow> buf),
                        count = prev_count,
                        capacity = Centroids.capacity c\<rparr>
        in case kmeans_loop malloc_ok 0 previous c s [] of
             None \<Rightarrow> None
           | Some (Inl e) \<Rightarrow> Some (Inl e)
           | Some (Inr (c', s', err)) \<Rightarrow> Some (Inr (c', s', Fin 0, err)))"

section \<open>Notions of the specification\<close>

text \<open>
  A well-formed dynamic array holds \<open>count\<close> elements and has room for them; a readable
  one (the snapshot buffer, which is as long as the capacity) holds at least \<open>count\<close>.
\<close>

definition wf_samples :: "Samples \<Rightarrow> bool" where
  "wf_samples s =
     (0 \<le> Samples.count s \<and> length (Samples.items s) = nat (Samples.count s) \<and>
      Samples.count s \<le> Samples.capacity s)"

definition wf_centroids :: "Centroids \<Rightarrow> bool" where
  "wf_centroids c =
     (0 \<le> Centroids.count c \<and> length (Centroids.items c) = nat (Centroids.count c) \<and>
      Centroids.count c \<le> Centroids.capacity c)"

definition readable :: "Centroids \<Rightarrow> bool" where
  "readable c =
     (0 \<le> Centroids.count c \<and> nat (Centroids.count c) \<le> length (Centroids.items c))"

text \<open>The squared Euclidean displacement between two positions, in binary32.\<close>

definition sq_displacement :: "Vector2 \<Rightarrow> Vector2 \<Rightarrow> float" where
  "sq_displacement a b =
     fadd (fmul (fsub (Vector2.x a) (Vector2.x b)) (fsub (Vector2.x a) (Vector2.x b)))
          (fmul (fsub (Vector2.y a) (Vector2.y b)) (fsub (Vector2.y a) (Vector2.y b)))"

text \<open>
  The comparison \<^verbatim>\<open><=\<close> of binary32, false as soon as one side is NaN: a squared
  displacement is within epsilon when it compares at most \<open>EPSILON\<close>.
\<close>

fun fle :: "float \<Rightarrow> float \<Rightarrow> bool" where
  "fle (Fin a) (Fin b) = (a \<le> b)"
| "fle NaN _ = False"
| "fle _ NaN = False"
| "fle NInf _ = True"
| "fle _ PInf = True"
| "fle _ _ = False"

definition within_epsilon :: "float \<Rightarrow> bool" where
  "within_epsilon d = fle d EPSILON"

text \<open>
  The samples of a cluster, in the order of the array; the binary32 sum of a list, taken
  from the left starting at zero, as the accumulation loop does; and the mean position of
  a list of samples: each sum divided by the converted count.
\<close>

definition cluster_members :: "Samples \<Rightarrow> int \<Rightarrow> Sample list" where
  "cluster_members s k = filter (\<lambda>sample. cluster sample = k) (Samples.items s)"

definition fsum :: "float list \<Rightarrow> float" where
  "fsum xs = foldl fadd (Fin 0) xs"

definition mean_position :: "Sample list \<Rightarrow> Vector2" where
  "mean_position ms =
     \<lparr>Vector2.x = fdiv (fsum (map Sample.x ms)) (float_of_int (int (length ms))),
      y = fdiv (fsum (map Sample.y ms)) (float_of_int (int (length ms)))\<rparr>"

text \<open>
  Every sample's \<open>cluster\<close> is an index into the centroids; the weaker invariant allows
  the sentinel too.
\<close>

definition clusters_valid :: "Centroids \<Rightarrow> Samples \<Rightarrow> bool" where
  "clusters_valid c s =
     (\<forall>sample \<in> set (Samples.items s). 0 \<le> cluster sample \<and> cluster sample < Centroids.count c)"

definition sentinel_or_valid :: "Centroids \<Rightarrow> Sample \<Rightarrow> bool" where
  "sentinel_or_valid c sample =
     (cluster sample = - 1 \<or> (0 \<le> cluster sample \<and> cluster sample < Centroids.count c))"

text \<open>
  Centroid \<open>k\<close> is in reach of a sample when its distance compares below \<^verbatim>\<open>FLT_MAX\<close>,
  the initial best distance: the distance is then finite and not NaN. It is nearest when
  moreover no centroid is strictly closer.
\<close>

definition in_reach :: "Centroids \<Rightarrow> Sample \<Rightarrow> nat \<Rightarrow> bool" where
  "in_reach c sample k =
     (k < nat (Centroids.count c) \<and> flt (distance sample (Centroids.items c ! k)) FLT_MAX)"

definition nearest :: "Centroids \<Rightarrow> Sample \<Rightarrow> nat \<Rightarrow> bool" where
  "nearest c sample k =
     (in_reach c sample k \<and>
      (\<forall>j < nat (Centroids.count c).
         \<not> flt (distance sample (Centroids.items c ! j)) (distance sample (Centroids.items c ! k))))"

text \<open>The allocator that never fails.\<close>

definition all_succeed :: "nat \<Rightarrow> bool" where
  "all_succeed n = True"

section \<open>Properties of the arithmetic\<close>

lemma fadd_NaN_right [simp]: "fadd a NaN = NaN"
  by (cases a) simp_all

lemma fmul_NaN_right [simp]: "fmul a NaN = NaN"
  by (cases a) simp_all

lemma fsub_NaN [simp]: "fsub a NaN = NaN" "fsub NaN b = NaN"
  by (simp_all add: fsub_def)

lemma flt_NaN_right [simp]: "\<not> flt a NaN"
  by (cases a) simp_all

lemma flt_irrefl [simp]: "\<not> flt a a"
  by (cases a) simp_all

lemma flt_trans: "flt a b \<Longrightarrow> flt b c \<Longrightarrow> flt a c"
  by (cases a; cases b; cases c) simp_all

lemma EPSILON_value: "EPSILON = Fin (13743895 / 2 ^ 37)"
  unfolding EPSILON_def by code_simp

text \<open>
  Values of the rounding and of the square root: 0.1f, ties to even at 25 bits, a
  subnormal tie, the overflow threshold, and the division of the empty cluster.
\<close>

lemma round_f32_tenth: "round_f32 (1 / 10) = Fin (13421773 / 2 ^ 27)"
  by code_simp

lemma round_f32_ties_to_even:
  "round_f32 16777217 = Fin 16777216 \<and> round_f32 16777219 = Fin 16777220"
  by code_simp

lemma round_f32_subnormal: "round_f32 (3 / 2 ^ 150) = Fin (2 / 2 ^ 149)"
  by code_simp

lemma round_f32_overflow:
  "round_f32 (2 ^ 128 - 2 ^ 103 - 1) = FLT_MAX \<and> round_f32 (2 ^ 128 - 2 ^ 103) = PInf"
  by code_simp

lemma sqrtf_two: "sqrtf (Fin 2) = Fin (11863283 / 2 ^ 23)"
  by code_simp

lemma sqrtf_FLT_MAX: "sqrtf FLT_MAX = Fin (16777215 * 2 ^ 40)"
  by code_simp

lemma zero_over_zero: "fdiv (Fin 0) (float_of_int 0) = NaN"
  by code_simp

text \<open>
  With the bounds \<open>2 ^ 127\<close> and \<open>- (2 ^ 127)\<close> the difference overflows to the
  negative infinity, the scale is the negative zero and the result the negative infinity.
\<close>

lemma get_random_float_negative_zero:
  "get_random_float 2147483647 1 (Fin (2 ^ 127)) (Fin (- (2 ^ 127))) = NInf"
  by code_simp

lemma not_fgt_iff: "\<not> fgt d e \<longleftrightarrow> fle d e \<or> d = NaN \<or> e = NaN"
  by (cases d; cases e) (auto simp: fgt_def)

lemma not_exceeding_EPSILON: "\<not> fgt d EPSILON \<longleftrightarrow> within_epsilon d \<or> d = NaN"
  by (simp add: not_fgt_iff within_epsilon_def EPSILON_value)

lemma map_nth_upt: "n \<le> length xs \<Longrightarrow> map ((!) xs) [0..<n] = take n xs"
  by (induction n) (simp_all add: take_Suc_conv_app_nth)

section \<open>The convergence test\<close>

lemma converged_loop_iff:
  "converged_loop p c is \<longleftrightarrow>
     (\<forall>i\<in>set is. \<not> fgt (sq_displacement (Centroids.items p ! i) (Centroids.items c ! i)) EPSILON)"
  by (induction "is") (simp_all add: sq_displacement_def Let_def)

lemma converged_char:
  "converged p c \<longleftrightarrow>
     Centroids.count p = Centroids.count c \<and>
     (\<forall>i < nat (Centroids.count c).
        \<not> fgt (sq_displacement (Centroids.items p ! i) (Centroids.items c ! i)) EPSILON)"
  by (auto simp: converged_def converged_loop_iff)

text \<open>
  Claim C3, amended. On two centroid collections whose buffers hold their \<open>count\<close>
  elements, \<open>converged\<close> is false when the counts differ; with equal counts it is
  false when the squared displacement at some index exceeds \<open>EPSILON\<close>, the float
  nearest to 1e-4, and it is true exactly when no squared displacement exceeds it, that
  is, when every squared displacement is within epsilon or is NaN.
\<close>

theorem converged_iff:
  assumes "readable p" and "readable c"
  shows "(converged p c \<longleftrightarrow>
            Centroids.count p = Centroids.count c \<and>
            (\<forall>i < nat (Centroids.count c).
               \<not> fgt (sq_displacement (Centroids.items p ! i) (Centroids.items c ! i)) EPSILON)) \<and>
         (converged p c \<longleftrightarrow>
            Centroids.count p = Centroids.count c \<and>
            (\<forall>i < nat (Centroids.count c).
               within_epsilon (sq_displacement (Centroids.items p ! i) (Centroids.items c ! i)) \<or>
               sq_displacement (Centroids.items p ! i) (Centroids.items c ! i) = NaN))"
  by (simp add: converged_char not_exceeding_EPSILON)

theorem converged_iff_witness:
  "readable \<lparr>Centroids.items = [\<lparr>Vector2.x = Fin 0, y = Fin 0\<rparr>, \<lparr>Vector2.x = Fin 5, y = Fin 5\<rparr>],
             count = 2, capacity = 10\<rparr> \<and>
   readable \<lparr>Centroids.items = [\<lparr>Vector2.x = Fin 0, y = Fin (1 / 128)\<rparr>,
                                \<lparr>Vector2.x = Fin 5, y = Fin 5\<rparr>],
             count = 2, capacity = 10\<rparr> \<and>
   converged
     \<lparr>Centroids.items = [\<lparr>Vector2.x = Fin 0, y = Fin 0\<rparr>, \<lparr>Vector2.x = Fin 5, y = Fin 5\<rparr>],
      count = 2, capacity = 10\<rparr>
     \<lparr>Centroids.items = [\<lparr>Vector2.x = Fin 0, y = Fin (1 / 128)\<rparr>, \<lparr>Vector2.x = Fin 5, y = Fin 5\<rparr>],
      count = 2, capacity = 10\<rparr> \<and>
   \<not> fgt (sq_displacement \<lparr>Vector2.x = Fin 0, y = Fin 0\<rparr> \<lparr>Vector2.x = Fin 0, y = Fin (1 / 128)\<rparr>)
          EPSILON \<and>
   within_epsilon
     (sq_displacement \<lparr>Vector2.x = Fin 0, y = Fin 0\<rparr> \<lparr>Vector2.x = Fin 0, y = Fin (1 / 128)\<rparr>)"
proof -
  let ?p = "\<lparr>Centroids.items = [\<lparr>Vector2.x = Fin 0, y = Fin 0\<rparr>, \<lparr>Vector2.x = Fin 5, y = Fin 5\<rparr>],
             count = 2, capacity = 10\<rparr>"
  let ?c = "\<lparr>Centroids.items = [\<lparr>Vector2.x = Fin 0, y = Fin (1 / 128)\<rparr>,
                                \<lparr>Vector2.x = Fin 5, y = Fin 5\<rparr>],
             count = 2, capacity = 10\<rparr>"
  have rp: "readable ?p" and rc: "readable ?c"
    by (simp_all add: readable_def)
  have cv: "converged ?p ?c"
    by code_simp
  have finite: "sq_displacement (Centroids.items ?p ! 0) (Centroids.items ?c ! 0) \<noteq> NaN"
    by code_simp
  from converged_iff [OF rp rc, THEN conjunct1] cv
  have "\<forall>i < nat (Centroids.count ?c).
          \<not> fgt (sq_displacement (Centroids.items ?p ! i) (Centroids.items ?c ! i)) EPSILON"
    by simp
  from this [rule_format, of 0]
  have a: "\<not> fgt (sq_displacement (Centroids.items ?p ! 0) (Centroids.items ?c ! 0)) EPSILON"
    by simp
  from converged_iff [OF rp rc, THEN conjunct2] cv
  have "\<forall>i < nat (Centroids.count ?c).
          within_epsilon (sq_displacement (Centroids.items ?p ! i) (Centroids.items ?c ! i)) \<or>
          sq_displacement (Centroids.items ?p ! i) (Centroids.items ?c ! i) = NaN"
    by simp
  from this [rule_format, of 0] finite
  have b: "within_epsilon (sq_displacement (Centroids.items ?p ! 0) (Centroids.items ?c ! 0))"
    by simp
  from rp rc cv a b show ?thesis
    by simp
qed

text \<open>
  The claim as first stated, true only when every squared displacement is within epsilon,
  fails: from the position (5,5) to a NaN position the squared displacement is NaN, which
  is not within epsilon, and \<open>converged\<close> is true.
\<close>

theorem converged_nan_counterexample:
  "converged
     \<lparr>Centroids.items = [\<lparr>Vector2.x = Fin 5, y = Fin 5\<rparr>], count = 1, capacity = 10\<rparr>
     \<lparr>Centroids.items = [\<lparr>Vector2.x = NaN, y = NaN\<rparr>], count = 1, capacity = 10\<rparr> \<and>
   \<not> within_epsilon
         (sq_displacement \<lparr>Vector2.x = Fin 5, y = Fin 5\<rparr> \<lparr>Vector2.x = NaN, y = NaN\<rparr>)"
  by code_simp

section \<open>Sample generation appends\<close>

lemma da_append_result:
  assumes "da_append realloc_ok s item = Inr s'"
  shows "Samples.items s' = Samples.items s @ [item] \<and> Samples.count s' = Samples.count s + 1 \<and>
         (wf_samples s \<longrightarrow> wf_samples s')"
  using assms
  by (auto simp: da_append_def Let_def wf_samples_def INITIAL_CAPACITY_def split: if_splits)

lemma da_append_succeeds:
  assumes "\<forall>cap. realloc_ok cap" and "wf_samples s" and "2 * Samples.count s \<le> INT_MAX"
  shows "\<exists>s'. da_append realloc_ok s item = Inr s'"
  using assms
  by (auto simp: da_append_def Let_def wf_samples_def)

lemma generate_loop_result:
  assumes "generate_loop realloc_ok mk is s = Inr s'"
  shows "Samples.items s' = Samples.items s @ map mk is \<and>
         Samples.count s' = Samples.count s + int (length is) \<and>
         (wf_samples s \<longrightarrow> wf_samples s')"
  using assms
proof (induction "is" arbitrary: s)
  case Nil
  then show ?case by simp
next
  case (Cons i "is")
  from Cons.prems obtain s1 where
    app: "da_append realloc_ok s (mk i) = Inr s1" and rest: "generate_loop realloc_ok mk is s1 = Inr s'"
    by (auto split: sum.splits)
  from da_append_result [OF app] Cons.IH [OF rest] show ?case
    by simp
qed

lemma generate_loop_succeeds:
  assumes "\<forall>cap. realloc_ok cap" and "wf_samples s"
    and "2 * (Samples.count s + int (length is)) \<le> INT_MAX"
  shows "\<exists>s'. generate_loop realloc_ok mk is s = Inr s'"
  using assms
proof (induction "is" arbitrary: s)
  case Nil
  then show ?case by simp
next
  case (Cons i "is")
  from Cons.prems have "2 * Samples.count s \<le> INT_MAX" by simp
  from da_append_succeeds [OF Cons.prems(1,2) this] obtain s1 where
    app: "da_append realloc_ok s (mk i) = Inr s1"
    by blast
  from da_append_result [OF app] Cons.prems have "wf_samples s1"
    and "2 * (Samples.count s1 + int (length is)) \<le> INT_MAX"
    by simp_all
  from Cons.IH [OF Cons.prems(1) this] app show ?case
    by simp
qed

text \<open>
  Claim C9. On a well-formed array, a call of \<open>generate_samples\<close> that returns has
  added exactly \<open>num_samples\<close> samples at the end, each with the sentinel \<open>- 1\<close> as
  its cluster, and has kept the earlier samples in place; the array stays well formed. The
  call returns when \<^verbatim>\<open>realloc\<close> never fails and the doubled final count fits an
  \<^verbatim>\<open>int\<close>; otherwise the assertion stops the program.
\<close>

theorem generate_samples_appends:
  assumes "wf_samples s"
  shows "(\<forall>s'. generate_samples realloc_ok rand_max rnd s center num_samples radius = Inr s' \<longrightarrow>
            Samples.count s' = Samples.count s + int num_samples \<and>
            length (Samples.items s') = length (Samples.items s) + num_samples \<and>
            take (length (Samples.items s)) (Samples.items s') = Samples.items s \<and>
            (\<forall>sample \<in> set (drop (length (Samples.items s)) (Samples.items s')).
               cluster sample = - 1) \<and>
            wf_samples s') \<and>
         ((\<forall>cap. realloc_ok cap) \<and> 2 * (Samples.count s + int num_samples) \<le> INT_MAX \<longrightarrow>
            (\<exists>s'. generate_samples realloc_ok rand_max rnd s center num_samples radius = Inr s'))"
proof -
  have "Samples.count s' = Samples.count s + int num_samples \<and>
        length (Samples.items s') = length (Samples.items s) + num_samples \<and>
        take (length (Samples.items s)) (Samples.items s') = Samples.items s \<and>
        (\<forall>sample \<in> set (drop (length (Samples.items s)) (Samples.items s')).
           cluster sample = - 1) \<and>
        wf_samples s'"
    if "generate_samples realloc_ok rand_max rnd s center num_samples radius = Inr s'" for s'
    using generate_loop_result [OF that [unfolded generate_samples_def]] assms
    by (auto simp: next_sample_def)
  moreover have "\<exists>s'. generate_samples realloc_ok rand_max rnd s center num_samples radius = Inr s'"
    if "(\<forall>cap. realloc_ok cap) \<and> 2 * (Samples.count s + int num_samples) \<le> INT_MAX"
    using generate_loop_succeeds [of realloc_ok s "[0..<num_samples]"] that assms
    by (simp add: generate_samples_def)
  ultimately show ?thesis by blast
qed

theorem generate_samples_appends_witness:
  "wf_samples \<lparr>Samples.items = [], count = 0, capacity = 0\<rparr> \<and>
   (\<exists>s'. generate_samples (\<lambda>cap. True) 2147483647 (\<lambda>j. 1073741823)
            \<lparr>Samples.items = [], count = 0, capacity = 0\<rparr>
            \<lparr>Vector2.x = Fin 400, y = Fin 300\<rparr> 25 (Fin 50) = Inr s' \<and>
          Samples.count s' = 25 \<and> length (Samples.items s') = 25 \<and>
          (\<forall>sample \<in> set (Samples.items s'). cluster sample = - 1))"
proof -
  let ?S = "\<lparr>Samples.items = [], count = 0, capacity = 0\<rparr>"
  have h: "wf_samples ?S"
    by (simp add: wf_samples_def)
  have "(\<forall>cap. (\<lambda>cap. True) cap) \<and> 2 * (Samples.count ?S + int 25) \<le> INT_MAX"
    by (simp add: INT_MAX_def)
  with generate_samples_appends [OF h, of "\<lambda>cap. True" 2147483647 "\<lambda>j. 1073741823"
      "\<lparr>Vector2.x = Fin 400, y = Fin 300\<rparr>" 25 "Fin 50"]
  obtain s' where
    g: "generate_samples (\<lambda>cap. True) 2147483647 (\<lambda>j. 1073741823) ?S
          \<lparr>Vector2.x = Fin 400, y = Fin 300\<rparr> 25 (Fin 50) = Inr s'"
    by blast
  with generate_samples_appends [OF h, of "\<lambda>cap. True" 2147483647 "\<lambda>j. 1073741823"
      "\<lparr>Vector2.x = Fin 400, y = Fin 300\<rparr>" 25 "Fin 50"]
  have "Samples.count s' = 25 \<and> length (Samples.items s') = 25 \<and>
        (\<forall>sample \<in> set (Samples.items s'). cluster sample = - 1)"
    by simp
  with g h show ?thesis by blast
qed

section \<open>The assignment step picks the first nearest centroid\<close>

lemma assign_loop:
  assumes "n \<le> length xs"
  shows "length (fold (\<lambda>i its. its[i := f (its ! i)]) [0..<n] xs) = length xs \<and>
         (\<forall>k < length xs. fold (\<lambda>i its. its[i := f (its ! i)]) [0..<n] xs ! k =
            (if k < n then f (xs ! k) else xs ! k))"
  using assms
proof (induction n)
  case 0
  then show ?case by simp
next
  case (Suc n)
  then show ?case
    by (auto simp: nth_list_update less_Suc_eq)
qed

lemma assign_step_items:
  assumes "wf_samples s"
  shows "Samples.items (assign_step c s) = map (assign_sample c) (Samples.items s)"
proof (rule nth_equalityI)
  from assms have n: "nat (Samples.count s) = length (Samples.items s)"
    by (simp add: wf_samples_def)
  show "length (Samples.items (assign_step c s)) = length (map (assign_sample c) (Samples.items s))"
    using assign_loop [of "nat (Samples.count s)" "Samples.items s" "assign_sample c"] n
    by (simp add: assign_step_def)
  fix k assume "k < length (Samples.items (assign_step c s))"
  then show "Samples.items (assign_step c s) ! k = map (assign_sample c) (Samples.items s) ! k"
    using assign_loop [of "nat (Samples.count s)" "Samples.items s" "assign_sample c"] n
    by (simp add: assign_step_def)
qed

lemma distance_cluster_update [simp]:
  "distance (sample\<lparr>cluster := cl\<rparr>) centroid = distance sample centroid"
  by (simp add: distance_def)

lemma assign_fold:
  "\<exists>best cl. fold (assign_centroid c) [0..<n] (FLT_MAX, sample) = (best, sample\<lparr>cluster := cl\<rparr>) \<and>
     ((\<forall>k < n. \<not> flt (distance sample (Centroids.items c ! k)) FLT_MAX) \<and>
        best = FLT_MAX \<and> cl = cluster sample
      \<or> (\<exists>k0 < n. cl = int k0 \<and> best = distance sample (Centroids.items c ! k0) \<and>
           flt (distance sample (Centroids.items c ! k0)) FLT_MAX \<and>
           (\<forall>k < n. \<not> flt (distance sample (Centroids.items c ! k))
                          (distance sample (Centroids.items c ! k0))) \<and>
           (\<forall>k < k0. distance sample (Centroids.items c ! k) \<noteq>
                       distance sample (Centroids.items c ! k0))))"
proof (induction n)
  case 0
  have "sample\<lparr>cluster := cluster sample\<rparr> = sample" by simp
  then show ?case by (metis fold_simps(1) not_less_zero upt_0)
next
  case (Suc n)
  let ?D = "\<lambda>k. distance sample (Centroids.items c ! k)"
  from Suc obtain best cl where
    st: "fold (assign_centroid c) [0..<n] (FLT_MAX, sample) = (best, sample\<lparr>cluster := cl\<rparr>)" and
    inv: "(\<forall>k < n. \<not> flt (?D k) FLT_MAX) \<and> best = FLT_MAX \<and> cl = cluster sample
      \<or> (\<exists>k0 < n. cl = int k0 \<and> best = ?D k0 \<and> flt (?D k0) FLT_MAX \<and>
           (\<forall>k < n. \<not> flt (?D k) (?D k0)) \<and> (\<forall>k < k0. ?D k \<noteq> ?D k0))"
    by blast
  have bound: "\<forall>k < n. \<not> flt (?D k) best" and top: "best = FLT_MAX \<or> flt best FLT_MAX"
    using inv by auto
  show ?case
  proof (cases "flt (?D n) best")
    case True
    then have step: "fold (assign_centroid c) [0..<Suc n] (FLT_MAX, sample) =
                      (?D n, sample\<lparr>cluster := int n\<rparr>)"
      using st by (simp add: assign_centroid_def)
    have "flt (?D n) FLT_MAX"
      using True top flt_trans by blast
    moreover have "\<forall>k < Suc n. \<not> flt (?D k) (?D n)"
      using bound True flt_trans by (auto simp: less_Suc_eq)
    moreover have "\<forall>k < n. ?D k \<noteq> ?D n"
      using bound True by auto
    ultimately show ?thesis
      using step by blast
  next
    case False
    then have step: "fold (assign_centroid c) [0..<Suc n] (FLT_MAX, sample) =
                      (best, sample\<lparr>cluster := cl\<rparr>)"
      using st by (simp add: assign_centroid_def)
    from inv show ?thesis
    proof
      assume a: "(\<forall>k < n. \<not> flt (?D k) FLT_MAX) \<and> best = FLT_MAX \<and> cl = cluster sample"
      with False have "\<forall>k < Suc n. \<not> flt (?D k) FLT_MAX"
        by (auto simp: less_Suc_eq)
      with a step show ?thesis by blast
    next
      assume "\<exists>k0 < n. cl = int k0 \<and> best = ?D k0 \<and> flt (?D k0) FLT_MAX \<and>
           (\<forall>k < n. \<not> flt (?D k) (?D k0)) \<and> (\<forall>k < k0. ?D k \<noteq> ?D k0)"
      then obtain k0 where k0: "k0 < n" "cl = int k0" "best = ?D k0" "flt (?D k0) FLT_MAX"
        "\<forall>k < n. \<not> flt (?D k) (?D k0)" "\<forall>k < k0. ?D k \<noteq> ?D k0"
        by blast
      with False have "\<forall>k < Suc n. \<not> flt (?D k) (?D k0)"
        by (auto simp: less_Suc_eq)
      with k0 step show ?thesis
        by (metis less_Suc_eq)
    qed
  qed
qed

lemma assign_sample_char:
  "Sample.x (assign_sample c sample) = Sample.x sample \<and>
   Sample.y (assign_sample c sample) = Sample.y sample \<and>
   ((\<exists>k. in_reach c sample k) \<longrightarrow>
      (\<exists>k0. cluster (assign_sample c sample) = int k0 \<and> nearest c sample k0 \<and>
         (\<forall>j < k0. distance sample (Centroids.items c ! j) \<noteq>
                     distance sample (Centroids.items c ! k0)))) \<and>
   ((\<forall>k. \<not> in_reach c sample k) \<longrightarrow> assign_sample c sample = sample)"
proof -
  let ?n = "nat (Centroids.count c)"
  let ?D = "\<lambda>k. distance sample (Centroids.items c ! k)"
  from assign_fold [of c ?n sample] obtain best cl where
    st: "fold (assign_centroid c) [0..<?n] (FLT_MAX, sample) = (best, sample\<lparr>cluster := cl\<rparr>)" and
    inv: "(\<forall>k < ?n. \<not> flt (?D k) FLT_MAX) \<and> best = FLT_MAX \<and> cl = cluster sample
      \<or> (\<exists>k0 < ?n. cl = int k0 \<and> best = ?D k0 \<and> flt (?D k0) FLT_MAX \<and>
           (\<forall>k < ?n. \<not> flt (?D k) (?D k0)) \<and> (\<forall>k < k0. ?D k \<noteq> ?D k0))"
    by blast
  have res: "assign_sample c sample = sample\<lparr>cluster := cl\<rparr>"
    using st by (simp add: assign_sample_def)
  from inv show ?thesis
  proof
    assume a: "(\<forall>k < ?n. \<not> flt (?D k) FLT_MAX) \<and> best = FLT_MAX \<and> cl = cluster sample"
    then have "\<forall>k. \<not> in_reach c sample k"
      by (simp add: in_reach_def)
    with a res show ?thesis by simp
  next
    assume "\<exists>k0 < ?n. cl = int k0 \<and> best = ?D k0 \<and> flt (?D k0) FLT_MAX \<and>
           (\<forall>k < ?n. \<not> flt (?D k) (?D k0)) \<and> (\<forall>k < k0. ?D k \<noteq> ?D k0)"
    then obtain k0 where k0: "k0 < ?n" "cl = int k0" "flt (?D k0) FLT_MAX"
        "\<forall>k < ?n. \<not> flt (?D k) (?D k0)" "\<forall>k < k0. ?D k \<noteq> ?D k0"
      by blast
    then have "nearest c sample k0" and "in_reach c sample k0"
      by (simp_all add: nearest_def in_reach_def)
    with k0 res show ?thesis
      by auto
  qed
qed

text \<open>
  Claim C2, amended. \<open>assign_step\<close> leaves the coordinates of every sample alone. For a
  sample with at least one centroid in reach it sets \<open>cluster\<close> to the index \<open>k0\<close>
  of a nearest centroid, and no centroid of a lower index is at the same distance: the
  comparison is strict, so among the centroids at the minimum distance the lowest index
  wins. A sample with no centroid in reach (every distance is infinite or NaN) keeps the
  cluster it had.
\<close>

theorem assign_step_nearest:
  assumes "wf_centroids c" and "wf_samples s" and "i < length (Samples.items s)"
  shows "Sample.x (Samples.items (assign_step c s) ! i) = Sample.x (Samples.items s ! i) \<and>
         Sample.y (Samples.items (assign_step c s) ! i) = Sample.y (Samples.items s ! i) \<and>
         ((\<exists>k. in_reach c (Samples.items s ! i) k) \<longrightarrow>
            (\<exists>k0. cluster (Samples.items (assign_step c s) ! i) = int k0 \<and>
               nearest c (Samples.items s ! i) k0 \<and>
               (\<forall>j < k0. distance (Samples.items s ! i) (Centroids.items c ! j) \<noteq>
                           distance (Samples.items s ! i) (Centroids.items c ! k0)))) \<and>
         ((\<forall>k. \<not> in_reach c (Samples.items s ! i) k) \<longrightarrow>
            Samples.items (assign_step c s) ! i = Samples.items s ! i)"
  using assign_sample_char [of c "Samples.items s ! i"] assms(3)
  by (simp add: assign_step_items [OF assms(2)])

theorem assign_step_nearest_witness:
  "wf_centroids \<lparr>Centroids.items = [\<lparr>Vector2.x = Fin 0, y = Fin 3\<rparr>, \<lparr>Vector2.x = Fin 1, y = Fin 0\<rparr>,
                                     \<lparr>Vector2.x = Fin (- 1), y = Fin 0\<rparr>],
                 count = 3, capacity = 10\<rparr> \<and>
   wf_samples \<lparr>Samples.items = [\<lparr>Sample.x = Fin 0, y = Fin 0, cluster = - 1\<rparr>],
               count = 1, capacity = 10\<rparr> \<and>
   in_reach \<lparr>Centroids.items = [\<lparr>Vector2.x = Fin 0, y = Fin 3\<rparr>, \<lparr>Vector2.x = Fin 1, y = Fin 0\<rparr>,
                                 \<lparr>Vector2.x = Fin (- 1), y = Fin 0\<rparr>],
             count = 3, capacity = 10\<rparr>
            \<lparr>Sample.x = Fin 0, y = Fin 0, cluster = - 1\<rparr> 1 \<and>
   distance \<lparr>Sample.x = Fin 0, y = Fin 0, cluster = - 1\<rparr> \<lparr>Vector2.x = Fin 1, y = Fin 0\<rparr> =
     distance \<lparr>Sample.x = Fin 0, y = Fin 0, cluster = - 1\<rparr> \<lparr>Vector2.x = Fin (- 1), y = Fin 0\<rparr> \<and>
   cluster (Samples.items
      (assign_step
         \<lparr>Centroids.items = [\<lparr>Vector2.x = Fin 0, y = Fin 3\<rparr>, \<lparr>Vector2.x = Fin 1, y = Fin 0\<rparr>,
                             \<lparr>Vector2.x = Fin (- 1), y = Fin 0\<rparr>],
          count = 3, capacity = 10\<rparr>
         \<lparr>Samples.items = [\<lparr>Sample.x = Fin 0, y = Fin 0, cluster = - 1\<rparr>],
          count = 1, capacity = 10\<rparr>) ! 0) = 1 \<and>
   nearest \<lparr>Centroids.items = [\<lparr>Vector2.x = Fin 0, y = Fin 3\<rparr>, \<lparr>Vector2.x = Fin 1, y = Fin 0\<rparr>,
                                \<lparr>Vector2.x = Fin (- 1), y = Fin 0\<rparr>],
            count = 3, capacity = 10\<rparr>
           \<lparr>Sample.x = Fin 0, y = Fin 0, cluster = - 1\<rparr> 1"
proof -
  let ?C = "\<lparr>Centroids.items = [\<lparr>Vector2.x = Fin 0, y = Fin 3\<rparr>, \<lparr>Vector2.x = Fin 1, y = Fin 0\<rparr>,
                                \<lparr>Vector2.x = Fin (- 1), y = Fin 0\<rparr>],
            count = 3, capacity = 10\<rparr>"
  let ?smp = "\<lparr>Sample.x = Fin 0, y = Fin 0, cluster = - 1\<rparr>"
  let ?S = "\<lparr>Samples.items = [?smp], count = 1, capacity = 10\<rparr>"
  have h: "wf_centroids ?C" "wf_samples ?S" "0 < length (Samples.items ?S)"
    by (simp_all add: wf_centroids_def wf_samples_def)
  have reach: "in_reach ?C ?smp 1"
    by code_simp
  have tie: "distance ?smp \<lparr>Vector2.x = Fin 1, y = Fin 0\<rparr> =
             distance ?smp \<lparr>Vector2.x = Fin (- 1), y = Fin 0\<rparr>"
    by code_simp
  have cl: "cluster (Samples.items (assign_step ?C ?S) ! 0) = 1"
    by code_simp
  from assign_step_nearest [OF h] reach obtain k0 where
    "cluster (Samples.items (assign_step ?C ?S) ! 0) = int k0" and "nearest ?C ?smp k0"
    by auto
  with cl have "nearest ?C ?smp 1"
    by simp
  with h reach tie cl show ?thesis
    by blast
qed

text \<open>
  The claim as first stated, for every sample and every non-empty collection, fails: the
  square of the difference \<open>2 ^ 64\<close> overflows, the distance to the only centroid is
  infinite, not below \<^verbatim>\<open>FLT_MAX\<close>, and the sample stays unassigned.
\<close>

theorem assign_step_overflow_counterexample:
  "distance \<lparr>Sample.x = Fin 0, y = Fin 0, cluster = - 1\<rparr> \<lparr>Vector2.x = Fin (2 ^ 64), y = Fin 0\<rparr> = PInf \<and>
   Samples.items
     (assign_step
        \<lparr>Centroids.items = [\<lparr>Vector2.x = Fin (2 ^ 64), y = Fin 0\<rparr>], count = 1, capacity = 10\<rparr>
        \<lparr>Samples.items = [\<lparr>Sample.x = Fin 0, y = Fin 0, cluster = - 1\<rparr>], count = 1, capacity = 10\<rparr>) =
     [\<lparr>Sample.x = Fin 0, y = Fin 0, cluster = - 1\<rparr>]"
  by code_simp

text \<open>
  Claim C8, amended. Samples appended by \<open>generate_samples\<close> carry the sentinel.
  \<open>assign_step\<close> keeps every cluster field the sentinel or a valid index; it sets the
  field to a valid index for every sample that has a centroid in reach, and leaves it as it
  was for a sample that has none.
\<close>

theorem cluster_invariant:
  assumes "wf_centroids c" and "wf_samples s"
  shows "(\<forall>s'. generate_samples realloc_ok rand_max rnd s center num_samples radius = Inr s' \<longrightarrow>
            (\<forall>sample \<in> set (drop (length (Samples.items s)) (Samples.items s')).
               cluster sample = - 1)) \<and>
         ((\<forall>sample \<in> set (Samples.items s). sentinel_or_valid c sample) \<longrightarrow>
            (\<forall>sample \<in> set (Samples.items (assign_step c s)). sentinel_or_valid c sample)) \<and>
         (\<forall>i < length (Samples.items s).
            (\<exists>k. in_reach c (Samples.items s ! i) k) \<longrightarrow>
              0 \<le> cluster (Samples.items (assign_step c s) ! i) \<and>
              cluster (Samples.items (assign_step c s) ! i) < Centroids.count c) \<and>
         (\<forall>i < length (Samples.items s).
            (\<forall>k. \<not> in_reach c (Samples.items s ! i) k) \<longrightarrow>
              cluster (Samples.items (assign_step c s) ! i) = cluster (Samples.items s ! i))"
proof -
  have valid: "0 \<le> cluster (assign_sample c sample) \<and>
               cluster (assign_sample c sample) < Centroids.count c"
    if "\<exists>k. in_reach c sample k" for sample
  proof -
    from assign_sample_char [of c sample] that obtain k0 where
      "cluster (assign_sample c sample) = int k0" and "nearest c sample k0"
      by blast
    then show ?thesis
      by (auto simp: nearest_def in_reach_def)
  qed
  have keep: "assign_sample c sample = sample" if "\<forall>k. \<not> in_reach c sample k" for sample
    using assign_sample_char [of c sample] that by blast
  have "sentinel_or_valid c (assign_sample c sample)" if "sentinel_or_valid c sample" for sample
    using valid [of sample] keep [of sample] that
    by (cases "\<exists>k. in_reach c sample k") (auto simp: sentinel_or_valid_def)
  then have inv: "(\<forall>sample \<in> set (Samples.items s). sentinel_or_valid c sample) \<longrightarrow>
      (\<forall>sample \<in> set (Samples.items (assign_step c s)). sentinel_or_valid c sample)"
    by (auto simp: assign_step_items [OF assms(2)])
  have fresh: "\<forall>s'. generate_samples realloc_ok rand_max rnd s center num_samples radius = Inr s' \<longrightarrow>
            (\<forall>sample \<in> set (drop (length (Samples.items s)) (Samples.items s')).
               cluster sample = - 1)"
  proof (intro allI impI)
    fix s' assume "generate_samples realloc_ok rand_max rnd s center num_samples radius = Inr s'"
    from generate_loop_result [OF this [unfolded generate_samples_def]]
    show "\<forall>sample \<in> set (drop (length (Samples.items s)) (Samples.items s')). cluster sample = - 1"
      by (auto simp: next_sample_def)
  qed
  from fresh inv valid keep show ?thesis
    by (simp add: assign_step_items [OF assms(2)])
qed

theorem cluster_invariant_witness:
  "wf_centroids \<lparr>Centroids.items = [\<lparr>Vector2.x = Fin 0, y = Fin 0\<rparr>], count = 1, capacity = 10\<rparr> \<and>
   wf_samples \<lparr>Samples.items = [\<lparr>Sample.x = Fin 3, y = Fin 4, cluster = - 1\<rparr>],
               count = 1, capacity = 10\<rparr> \<and>
   sentinel_or_valid \<lparr>Centroids.items = [\<lparr>Vector2.x = Fin 0, y = Fin 0\<rparr>], count = 1, capacity = 10\<rparr>
     \<lparr>Sample.x = Fin 3, y = Fin 4, cluster = - 1\<rparr> \<and>
   in_reach \<lparr>Centroids.items = [\<lparr>Vector2.x = Fin 0, y = Fin 0\<rparr>], count = 1, capacity = 10\<rparr>
     \<lparr>Sample.x = Fin 3, y = Fin 4, cluster = - 1\<rparr> 0 \<and>
   0 \<le> cluster (Samples.items
      (assign_step
         \<lparr>Centroids.items = [\<lparr>Vector2.x = Fin 0, y = Fin 0\<rparr>], count = 1, capacity = 10\<rparr>
         \<lparr>Samples.items = [\<lparr>Sample.x = Fin 3, y = Fin 4, cluster = - 1\<rparr>],
          count = 1, capacity = 10\<rparr>) ! 0) \<and>
   cluster (Samples.items
      (assign_step
         \<lparr>Centroids.items = [\<lparr>Vector2.x = Fin 0, y = Fin 0\<rparr>], count = 1, capacity = 10\<rparr>
         \<lparr>Samples.items = [\<lparr>Sample.x = Fin 3, y = Fin 4, cluster = - 1\<rparr>],
          count = 1, capacity = 10\<rparr>) ! 0) < 1 \<and>
   sentinel_or_valid \<lparr>Centroids.items = [\<lparr>Vector2.x = Fin 0, y = Fin 0\<rparr>], count = 1, capacity = 10\<rparr>
     (Samples.items
        (assign_step
           \<lparr>Centroids.items = [\<lparr>Vector2.x = Fin 0, y = Fin 0\<rparr>], count = 1, capacity = 10\<rparr>
           \<lparr>Samples.items = [\<lparr>Sample.x = Fin 3, y = Fin 4, cluster = - 1\<rparr>],
            count = 1, capacity = 10\<rparr>) ! 0)"
proof -
  let ?C = "\<lparr>Centroids.items = [\<lparr>Vector2.x = Fin 0, y = Fin 0\<rparr>], count = 1, capacity = 10\<rparr>"
  let ?smp = "\<lparr>Sample.x = Fin 3, y = Fin 4, cluster = - 1\<rparr>"
  let ?S = "\<lparr>Samples.items = [?smp], count = 1, capacity = 10\<rparr>"
  have h: "wf_centroids ?C" "wf_samples ?S"
    by (simp_all add: wf_centroids_def wf_samples_def)
  have sv: "sentinel_or_valid ?C ?smp"
    by (simp add: sentinel_or_valid_def)
  have reach: "in_reach ?C ?smp 0"
    by code_simp
  note inv = cluster_invariant [OF h, of "\<lambda>cap. True" 0 "\<lambda>j. 0" "\<lparr>Vector2.x = Fin 0, y = Fin 0\<rparr>" 0 "Fin 0"]
  from inv sv have a: "\<forall>sample \<in> set (Samples.items (assign_step ?C ?S)). sentinel_or_valid ?C sample"
    by simp
  from inv reach have b: "0 \<le> cluster (Samples.items (assign_step ?C ?S) ! 0) \<and>
      cluster (Samples.items (assign_step ?C ?S) ! 0) < 1"
    by auto
  have "length (Samples.items (assign_step ?C ?S)) = 1"
    by (simp add: assign_step_items [OF h(2)])
  with a have "sentinel_or_valid ?C (Samples.items (assign_step ?C ?S) ! 0)"
    by simp
  with h sv reach b show ?thesis
    by blast
qed

text \<open>
  The claim as first stated, a valid index for every sample after any call with at least
  one centroid, fails: with a single centroid at NaN the distance is NaN, no comparison
  succeeds, and the sample keeps the sentinel.
\<close>

theorem assign_step_nan_counterexample:
  "\<not> (0 \<le> cluster (Samples.items
          (assign_step
             \<lparr>Centroids.items = [\<lparr>Vector2.x = NaN, y = NaN\<rparr>], count = 1, capacity = 10\<rparr>
             \<lparr>Samples.items = [\<lparr>Sample.x = Fin 0, y = Fin 0, cluster = - 1\<rparr>],
              count = 1, capacity = 10\<rparr>) ! 0) \<and>
       cluster (Samples.items
          (assign_step
             \<lparr>Centroids.items = [\<lparr>Vector2.x = NaN, y = NaN\<rparr>], count = 1, capacity = 10\<rparr>
             \<lparr>Samples.items = [\<lparr>Sample.x = Fin 0, y = Fin 0, cluster = - 1\<rparr>],
              count = 1, capacity = 10\<rparr>) ! 0)
         < Centroids.count \<lparr>Centroids.items = [\<lparr>Vector2.x = NaN, y = NaN\<rparr>], count = 1, capacity = 10\<rparr>)"
  by code_simp

section \<open>The update step computes the means\<close>

lemma accumulate_length:
  "accumulate sample arr = Inr arr' \<Longrightarrow> length arr' = length arr"
  by (auto simp: accumulate_def Let_def split: if_splits)

lemma accumulate_loop_sums:
  assumes "\<forall>i \<in> set is. 0 \<le> cluster (Samples.items s ! i) \<and>
             cluster (Samples.items s ! i) < int (length arr)"
  shows "\<exists>arr'. accumulate_loop s is arr = Inr arr' \<and> length arr' = length arr \<and>
           (\<forall>k < length arr. arr' ! k =
              \<lparr>mean_x = foldl fadd (mean_x (arr ! k))
                          (map Sample.x (filter (\<lambda>sample. cluster sample = int k)
                                            (map ((!) (Samples.items s)) is))),
               mean_y = foldl fadd (mean_y (arr ! k))
                          (map Sample.y (filter (\<lambda>sample. cluster sample = int k)
                                            (map ((!) (Samples.items s)) is))),
               total = total (arr ! k) +
                         int (length (filter (\<lambda>sample. cluster sample = int k)
                                        (map ((!) (Samples.items s)) is)))\<rparr>)"
  using assms
proof (induction "is" arbitrary: arr)
  case Nil
  then show ?case by simp
next
  case (Cons i "is")
  let ?sample = "Samples.items s ! i"
  let ?j = "nat (cluster ?sample)"
  let ?m = "arr ! ?j"
  let ?arr1 = "arr[?j := ?m\<lparr>mean_x := fadd (mean_x ?m) (Sample.x ?sample),
                               mean_y := fadd (mean_y ?m) (Sample.y ?sample),
                               total := total ?m + 1\<rparr>]"
  from Cons.prems have rng: "0 \<le> cluster ?sample" "cluster ?sample < int (length arr)"
    by simp_all
  then have acc: "accumulate ?sample arr = Inr ?arr1"
    by (simp add: accumulate_def Let_def)
  have len1: "length ?arr1 = length arr" by simp
  from Cons.prems have "\<forall>i \<in> set is. 0 \<le> cluster (Samples.items s ! i) \<and>
             cluster (Samples.items s ! i) < int (length ?arr1)"
    by simp
  from Cons.IH [OF this] obtain arr' where
    loop: "accumulate_loop s is ?arr1 = Inr arr'" and len: "length arr' = length ?arr1" and
    vals: "\<forall>k < length ?arr1. arr' ! k =
              \<lparr>mean_x = foldl fadd (mean_x (?arr1 ! k))
                          (map Sample.x (filter (\<lambda>sample. cluster sample = int k)
                                            (map ((!) (Samples.items s)) is))),
               mean_y = foldl fadd (mean_y (?arr1 ! k))
                          (map Sample.y (filter (\<lambda>sample. cluster sample = int k)
                                            (map ((!) (Samples.items s)) is))),
               total = total (?arr1 ! k) +
                         int (length (filter (\<lambda>sample. cluster sample = int k)
                                        (map ((!) (Samples.items s)) is)))\<rparr>"
    by blast
  have "accumulate_loop s (i # is) arr = Inr arr'"
    using acc loop by simp
  moreover have "length arr' = length arr"
    using len by simp
  moreover have "\<forall>k < length arr. arr' ! k =
              \<lparr>mean_x = foldl fadd (mean_x (arr ! k))
                          (map Sample.x (filter (\<lambda>sample. cluster sample = int k)
                                            (map ((!) (Samples.items s)) (i # is)))),
               mean_y = foldl fadd (mean_y (arr ! k))
                          (map Sample.y (filter (\<lambda>sample. cluster sample = int k)
                                            (map ((!) (Samples.items s)) (i # is)))),
               total = total (arr ! k) +
                         int (length (filter (\<lambda>sample. cluster sample = int k)
                                        (map ((!) (Samples.items s)) (i # is))))\<rparr>"
  proof (intro allI impI)
    fix k assume k: "k < length arr"
    show "arr' ! k =
              \<lparr>mean_x = foldl fadd (mean_x (arr ! k))
                          (map Sample.x (filter (\<lambda>sample. cluster sample = int k)
                                            (map ((!) (Samples.items s)) (i # is)))),
               mean_y = foldl fadd (mean_y (arr ! k))
                          (map Sample.y (filter (\<lambda>sample. cluster sample = int k)
                                            (map ((!) (Samples.items s)) (i # is)))),
               total = total (arr ! k) +
                         int (length (filter (\<lambda>sample. cluster sample = int k)
                                        (map ((!) (Samples.items s)) (i # is))))\<rparr>"
    proof (cases "cluster ?sample = int k")
      case True
      then have "?j = k" by simp
      with k vals True show ?thesis by (simp add: nth_list_update)
    next
      case False
      with rng have "?j \<noteq> k" by auto
      with k vals False show ?thesis by (simp add: nth_list_update)
    qed
  qed
  ultimately show ?case by blast
qed

lemma accumulate_loop_out_of_bounds:
  assumes "\<exists>i \<in> set is. cluster (Samples.items s ! i) < 0 \<or>
             int (length arr) \<le> cluster (Samples.items s ! i)"
  shows "accumulate_loop s is arr = Inl OutOfBounds"
  using assms
proof (induction "is" arbitrary: arr)
  case Nil
  then show ?case by simp
next
  case (Cons i "is")
  show ?case
  proof (cases "accumulate (Samples.items s ! i) arr")
    case (Inl e)
    then show ?thesis
      by (auto simp: accumulate_def Let_def split: if_splits)
  next
    case (Inr arr1)
    then have ok: "\<not> (cluster (Samples.items s ! i) < 0 \<or>
                     int (length arr) \<le> cluster (Samples.items s ! i))"
      by (auto simp: accumulate_def Let_def split: if_splits)
    from Inr have "length arr1 = length arr" by (rule accumulate_length)
    with Cons.prems ok have "\<exists>i \<in> set is. cluster (Samples.items s ! i) < 0 \<or>
             int (length arr1) \<le> cluster (Samples.items s ! i)"
      by auto
    from Cons.IH [OF this] Inr show ?thesis by simp
  qed
qed

lemma store_loop:
  assumes "n \<le> length its"
  shows "length (fold (store_mean arr) [0..<n] its) = length its \<and>
         (\<forall>k < length its. fold (store_mean arr) [0..<n] its ! k =
            (if k < n then \<lparr>Vector2.x = fdiv (mean_x (arr ! k)) (float_of_int (total (arr ! k))),
                             y = fdiv (mean_y (arr ! k)) (float_of_int (total (arr ! k)))\<rparr>
             else its ! k))"
  using assms
proof (induction n)
  case 0
  then show ?case by simp
next
  case (Suc n)
  then show ?case
    by (auto simp: store_mean_def Let_def nth_list_update less_Suc_eq)
qed

lemma update_step_result:
  assumes c: "wf_centroids c" and s: "wf_samples s" and v: "clusters_valid c s"
  shows "update_step True c s =
           Inr (c\<lparr>Centroids.items :=
                    map (\<lambda>k. mean_position (cluster_members s (int k)))
                        [0..<nat (Centroids.count c)]\<rparr>, [])"
proof -
  let ?n = "nat (Samples.count s)" and ?m = "nat (Centroids.count c)"
  let ?zero = "\<lparr>mean_x = Fin 0, mean_y = Fin 0, total = 0\<rparr>"
  let ?arr = "replicate ?m ?zero"
  from s have ln: "length (Samples.items s) = ?n" by (simp add: wf_samples_def)
  from c have lm: "length (Centroids.items c) = ?m" and c0: "0 \<le> Centroids.count c"
    by (simp_all add: wf_centroids_def)
  have all: "map ((!) (Samples.items s)) [0..<?n] = Samples.items s"
    using map_nth_upt [of ?n "Samples.items s"] ln by simp
  have "\<forall>i \<in> set [0..<?n]. 0 \<le> cluster (Samples.items s ! i) \<and>
          cluster (Samples.items s ! i) < int (length ?arr)"
    using v ln c0 by (auto simp: clusters_valid_def)
  from accumulate_loop_sums [OF this] obtain arr' where
    loop: "accumulate_loop s [0..<?n] ?arr = Inr arr'" and len: "length arr' = ?m" and
    vals: "\<forall>k < ?m. arr' ! k =
              \<lparr>mean_x = fsum (map Sample.x (cluster_members s (int k))),
               mean_y = fsum (map Sample.y (cluster_members s (int k))),
               total = int (length (cluster_members s (int k)))\<rparr>"
    unfolding all by (auto simp: fsum_def cluster_members_def)
  have "fold (store_mean arr') [0..<?m] (Centroids.items c) =
          map (\<lambda>k. mean_position (cluster_members s (int k))) [0..<?m]"
  proof (rule nth_equalityI)
    show "length (fold (store_mean arr') [0..<?m] (Centroids.items c)) =
          length (map (\<lambda>k. mean_position (cluster_members s (int k))) [0..<?m])"
      using store_loop [of ?m "Centroids.items c" arr'] lm by simp
  next
    fix k assume "k < length (fold (store_mean arr') [0..<?m] (Centroids.items c))"
    then have k: "k < ?m"
      using store_loop [of ?m "Centroids.items c" arr'] lm by simp
    then show "fold (store_mean arr') [0..<?m] (Centroids.items c) ! k =
          map (\<lambda>k. mean_position (cluster_members s (int k))) [0..<?m] ! k"
      using store_loop [of ?m "Centroids.items c" arr'] lm vals
      by (simp add: mean_position_def)
  qed
  with loop show ?thesis
    by (simp add: update_step_def)
qed

lemma mean_position_empty: "mean_position [] = \<lparr>Vector2.x = NaN, y = NaN\<rparr>"
  by (simp add: mean_position_def fsum_def float_of_int_def round_f32_def inf_of_sign_def)

text \<open>
  Claim C1. When the allocation succeeds and every sample's cluster is a valid index,
  \<open>update_step\<close> returns, and at every index \<open>k\<close> with at least one assigned sample
  the new position is the sum of the \<open>x\<close> of the samples of cluster \<open>k\<close> divided by
  their number, and likewise for \<open>y\<close>; sums and quotients are binary32 operations, the
  sums taken in sample order. For the samples (0,0), (2,0), (0,2), (2,2), all of cluster
  0, centroid 0 becomes exactly (1,1).
\<close>

theorem update_step_mean:
  assumes "wf_centroids c" and "wf_samples s" and "clusters_valid c s"
    and "0 \<le> k" and "k < Centroids.count c" and "cluster_members s k \<noteq> []"
  shows "\<exists>c'. update_step True c s = Inr (c', []) \<and>
           Centroids.count c' = Centroids.count c \<and>
           Centroids.items c' ! nat k =
             \<lparr>Vector2.x = fdiv (fsum (map Sample.x (cluster_members s k)))
                                (float_of_int (int (length (cluster_members s k)))),
              y = fdiv (fsum (map Sample.y (cluster_members s k)))
                       (float_of_int (int (length (cluster_members s k))))\<rparr> \<and>
           (k = 0 \<and> Samples.items s =
               [\<lparr>Sample.x = Fin 0, y = Fin 0, cluster = 0\<rparr>,
                \<lparr>Sample.x = Fin 2, y = Fin 0, cluster = 0\<rparr>,
                \<lparr>Sample.x = Fin 0, y = Fin 2, cluster = 0\<rparr>,
                \<lparr>Sample.x = Fin 2, y = Fin 2, cluster = 0\<rparr>] \<longrightarrow>
            Centroids.items c' ! 0 = \<lparr>Vector2.x = Fin 1, y = Fin 1\<rparr>)"
proof -
  let ?four = "[\<lparr>Sample.x = Fin 0, y = Fin 0, cluster = 0\<rparr>,
                \<lparr>Sample.x = Fin 2, y = Fin 0, cluster = 0\<rparr>,
                \<lparr>Sample.x = Fin 0, y = Fin 2, cluster = 0\<rparr>,
                \<lparr>Sample.x = Fin 2, y = Fin 2, cluster = 0\<rparr>]"
  have four: "mean_position ?four = \<lparr>Vector2.x = Fin 1, y = Fin 1\<rparr>"
    by code_simp
  have "Samples.items s = ?four \<Longrightarrow> cluster_members s 0 = ?four"
    by (simp add: cluster_members_def)
  with four have "Samples.items s = ?four \<Longrightarrow>
      mean_position (cluster_members s 0) = \<lparr>Vector2.x = Fin 1, y = Fin 1\<rparr>"
    by simp
  moreover from assms have "nat k < nat (Centroids.count c)" by simp
  ultimately show ?thesis
    using update_step_result [OF assms(1-3)] assms(4,5)
    by (auto simp: mean_position_def)
qed

theorem update_step_mean_witness:
  "wf_centroids \<lparr>Centroids.items = [\<lparr>Vector2.x = Fin 7, y = Fin 3\<rparr>], count = 1, capacity = 10\<rparr> \<and>
   wf_samples \<lparr>Samples.items = [\<lparr>Sample.x = Fin 0, y = Fin 0, cluster = 0\<rparr>,
                                 \<lparr>Sample.x = Fin 2, y = Fin 0, cluster = 0\<rparr>,
                                 \<lparr>Sample.x = Fin 0, y = Fin 2, cluster = 0\<rparr>,
                                 \<lparr>Sample.x = Fin 2, y = Fin 2, cluster = 0\<rparr>],
               count = 4, capacity = 10\<rparr> \<and>
   (\<exists>c'. update_step True
           \<lparr>Centroids.items = [\<lparr>Vector2.x = Fin 7, y = Fin 3\<rparr>], count = 1, capacity = 10\<rparr>
           \<lparr>Samples.items = [\<lparr>Sample.x = Fin 0, y = Fin 0, cluster = 0\<rparr>,
                             \<lparr>Sample.x = Fin 2, y = Fin 0, cluster = 0\<rparr>,
                             \<lparr>Sample.x = Fin 0, y = Fin 2, cluster = 0\<rparr>,
                             \<lparr>Sample.x = Fin 2, y = Fin 2, cluster = 0\<rparr>],
            count = 4, capacity = 10\<rparr> = Inr (c', []) \<and>
         Centroids.items c' ! 0 = \<lparr>Vector2.x = Fin 1, y = Fin 1\<rparr>)"
proof -
  let ?C = "\<lparr>Centroids.items = [\<lparr>Vector2.x = Fin 7, y = Fin 3\<rparr>], count = 1, capacity = 10\<rparr>"
  let ?S = "\<lparr>Samples.items = [\<lparr>Sample.x = Fin 0, y = Fin 0, cluster = 0\<rparr>,
                             \<lparr>Sample.x = Fin 2, y = Fin 0, cluster = 0\<rparr>,
                             \<lparr>Sample.x = Fin 0, y = Fin 2, cluster = 0\<rparr>,
                             \<lparr>Sample.x = Fin 2, y = Fin 2, cluster = 0\<rparr>],
            count = 4, capacity = 10\<rparr>"
  have h: "wf_centroids ?C" "wf_samples ?S" "clusters_valid ?C ?S" "(0::int) \<le> 0"
    "0 < Centroids.count ?C" "cluster_members ?S 0 \<noteq> []"
    by (simp_all add: wf_centroids_def wf_samples_def clusters_valid_def cluster_members_def)
  from update_step_mean [OF h] obtain c' where
    "update_step True ?C ?S = Inr (c', [])" and
    "Centroids.items c' ! 0 = \<lparr>Vector2.x = Fin 1, y = Fin 1\<rparr>"
    by auto
  with h show ?thesis by blast
qed

text \<open>
  Claim C10. The accumulator is indexed by the cluster field unchecked. With a successful
  allocation, \<open>update_step\<close> stays inside the buffer and returns when every cluster lies
  in \<open>[0, count)\<close>, and it accesses the buffer out of bounds otherwise, in particular
  when a sample still carries the sentinel \<open>- 1\<close>.
\<close>

theorem update_step_bounds:
  assumes c: "wf_centroids c" and s: "wf_samples s"
  shows "(clusters_valid c s \<longrightarrow> (\<exists>c'. update_step True c s = Inr (c', []))) \<and>
         (\<not> clusters_valid c s \<longrightarrow> update_step True c s = Inl OutOfBounds) \<and>
         ((\<exists>sample \<in> set (Samples.items s). cluster sample = - 1) \<longrightarrow>
            update_step True c s = Inl OutOfBounds)"
proof -
  have oob: "update_step True c s = Inl OutOfBounds" if "\<not> clusters_valid c s"
  proof -
    from that obtain sample where mem: "sample \<in> set (Samples.items s)"
      and bad: "cluster sample < 0 \<or> Centroids.count c \<le> cluster sample"
      by (auto simp: clusters_valid_def)
    from mem obtain i where i: "i < length (Samples.items s)" and at: "Samples.items s ! i = sample"
      by (auto simp: in_set_conv_nth)
    from s i have "i \<in> set [0..<nat (Samples.count s)]"
      by (simp add: wf_samples_def)
    moreover from c have "int (length (replicate (nat (Centroids.count c))
                      \<lparr>mean_x = Fin 0, mean_y = Fin 0, total = 0\<rparr>)) = Centroids.count c"
      by (simp add: wf_centroids_def)
    ultimately have "\<exists>i \<in> set [0..<nat (Samples.count s)].
        cluster (Samples.items s ! i) < 0 \<or>
        int (length (replicate (nat (Centroids.count c))
                      \<lparr>mean_x = Fin 0, mean_y = Fin 0, total = 0\<rparr>)) \<le> cluster (Samples.items s ! i)"
      using bad at by auto
    from accumulate_loop_out_of_bounds [OF this] show ?thesis
      by (simp add: update_step_def)
  qed
  moreover have "\<not> clusters_valid c s" if "\<exists>sample \<in> set (Samples.items s). cluster sample = - 1"
    using that by (force simp: clusters_valid_def)
  ultimately show ?thesis
    using update_step_result [OF c s] by auto
qed

theorem update_step_bounds_witness:
  "wf_centroids \<lparr>Centroids.items = [\<lparr>Vector2.x = Fin 0, y = Fin 0\<rparr>], count = 1, capacity = 10\<rparr> \<and>
   wf_samples \<lparr>Samples.items = [\<lparr>Sample.x = Fin 3, y = Fin 4, cluster = - 1\<rparr>],
               count = 1, capacity = 10\<rparr> \<and>
   wf_samples \<lparr>Samples.items = [\<lparr>Sample.x = Fin 3, y = Fin 4, cluster = 0\<rparr>],
               count = 1, capacity = 10\<rparr> \<and>
   update_step True
     \<lparr>Centroids.items = [\<lparr>Vector2.x = Fin 0, y = Fin 0\<rparr>], count = 1, capacity = 10\<rparr>
     \<lparr>Samples.items = [\<lparr>Sample.x = Fin 3, y = Fin 4, cluster = - 1\<rparr>], count = 1, capacity = 10\<rparr> =
     Inl OutOfBounds \<and>
   (\<exists>c'. update_step True
     \<lparr>Centroids.items = [\<lparr>Vector2.x = Fin 0, y = Fin 0\<rparr>], count = 1, capacity = 10\<rparr>
     \<lparr>Samples.items = [\<lparr>Sample.x = Fin 3, y = Fin 4, cluster = 0\<rparr>], count = 1, capacity = 10\<rparr> =
     Inr (c', []))"
proof -
  let ?C = "\<lparr>Centroids.items = [\<lparr>Vector2.x = Fin 0, y = Fin 0\<rparr>], count = 1, capacity = 10\<rparr>"
  let ?S = "\<lparr>Samples.items = [\<lparr>Sample.x = Fin 3, y = Fin 4, cluster = - 1\<rparr>],
            count = 1, capacity = 10\<rparr>"
  let ?T = "\<lparr>Samples.items = [\<lparr>Sample.x = Fin 3, y = Fin 4, cluster = 0\<rparr>],
            count = 1, capacity = 10\<rparr>"
  have h: "wf_centroids ?C" "wf_samples ?S" "wf_samples ?T"
    by (simp_all add: wf_centroids_def wf_samples_def)
  have v: "clusters_valid ?C ?T"
    by (simp add: clusters_valid_def)
  have "update_step True ?C ?S = Inl OutOfBounds"
    using update_step_bounds [OF h(1) h(2)] by simp
  moreover have "\<exists>c'. update_step True ?C ?T = Inr (c', [])"
    using update_step_bounds [OF h(1) h(3)] v by blast
  ultimately show ?thesis
    using h by blast
qed

text \<open>
  Claim C7. When the allocation of the accumulator buffer fails, \<open>update_step\<close> writes
  its message to the standard error stream and returns normally with the centroids as
  they were.
\<close>

theorem update_step_alloc_failure:
  "update_step False c s = Inr (c, [alloc_error])"
  by (simp add: update_step_def)

theorem update_step_alloc_failure_witness:
  "update_step False
     \<lparr>Centroids.items = [\<lparr>Vector2.x = Fin 7, y = Fin 3\<rparr>], count = 1, capacity = 10\<rparr>
     \<lparr>Samples.items = [\<lparr>Sample.x = Fin 3, y = Fin 4, cluster = 0\<rparr>], count = 1, capacity = 10\<rparr> =
   Inr (\<lparr>Centroids.items = [\<lparr>Vector2.x = Fin 7, y = Fin 3\<rparr>], count = 1, capacity = 10\<rparr>,
        [alloc_error])"
  by (rule update_step_alloc_failure)

section \<open>An empty cluster\<close>

lemma sq_displacement_NaN [simp]:
  "sq_displacement a \<lparr>Vector2.x = NaN, y = NaN\<rparr> = NaN"
  by (simp add: sq_displacement_def)

text \<open>
  Claim C5, amended. When the allocation succeeds, every cluster is a valid index and
  no sample is assigned to centroid \<open>k\<close>, the division of zero by the zero count makes
  the position of centroid \<open>k\<close> NaN in both coordinates. From then on the squared
  displacement at \<open>k\<close> is NaN and its comparison with \<open>EPSILON\<close> is false, so index
  \<open>k\<close> never makes \<open>converged\<close> return false: against any snapshot of the same
  count, \<open>converged\<close> is true exactly when no other index exceeds \<open>EPSILON\<close>.
\<close>

theorem empty_cluster_nan:
  assumes "wf_centroids c" and "wf_samples s" and "clusters_valid c s"
    and "0 \<le> k" and "k < Centroids.count c" and "cluster_members s k = []"
  shows "\<exists>c'. update_step True c s = Inr (c', []) \<and>
           Centroids.count c' = Centroids.count c \<and>
           Centroids.items c' ! nat k = \<lparr>Vector2.x = NaN, y = NaN\<rparr> \<and>
           (\<forall>p. readable p \<and> Centroids.count p = Centroids.count c' \<longrightarrow>
              sq_displacement (Centroids.items p ! nat k) (Centroids.items c' ! nat k) = NaN \<and>
              \<not> fgt (sq_displacement (Centroids.items p ! nat k) (Centroids.items c' ! nat k)) EPSILON \<and>
              (converged p c' \<longleftrightarrow>
                 (\<forall>i < nat (Centroids.count c'). i \<noteq> nat k \<longrightarrow>
                    \<not> fgt (sq_displacement (Centroids.items p ! i) (Centroids.items c' ! i))
                           EPSILON)))"
proof -
  let ?c' = "c\<lparr>Centroids.items :=
                 map (\<lambda>k. mean_position (cluster_members s (int k))) [0..<nat (Centroids.count c)]\<rparr>"
  have upd: "update_step True c s = Inr (?c', [])"
    by (rule update_step_result [OF assms(1-3)])
  from assms(4,5) have k: "nat k < nat (Centroids.count c)" by simp
  with assms(4,6) have nan: "Centroids.items ?c' ! nat k = \<lparr>Vector2.x = NaN, y = NaN\<rparr>"
    by (simp add: mean_position_empty)
  from assms(1) have rd: "readable ?c'"
    by (simp add: wf_centroids_def readable_def)
  have "sq_displacement (Centroids.items p ! nat k) (Centroids.items ?c' ! nat k) = NaN \<and>
        \<not> fgt (sq_displacement (Centroids.items p ! nat k) (Centroids.items ?c' ! nat k)) EPSILON \<and>
        (converged p ?c' \<longleftrightarrow>
           (\<forall>i < nat (Centroids.count ?c'). i \<noteq> nat k \<longrightarrow>
              \<not> fgt (sq_displacement (Centroids.items p ! i) (Centroids.items ?c' ! i)) EPSILON))"
    if p: "readable p \<and> Centroids.count p = Centroids.count ?c'" for p
  proof -
    have d: "sq_displacement (Centroids.items p ! nat k) (Centroids.items ?c' ! nat k) = NaN"
      unfolding nan by simp
    then have ng: "\<not> fgt (sq_displacement (Centroids.items p ! nat k) (Centroids.items ?c' ! nat k)) EPSILON"
      by (simp add: fgt_def)
    from p rd have "converged p ?c' \<longleftrightarrow>
        (\<forall>i < nat (Centroids.count ?c').
           \<not> fgt (sq_displacement (Centroids.items p ! i) (Centroids.items ?c' ! i)) EPSILON)"
      by (simp add: converged_char)
    also have "\<dots> \<longleftrightarrow> (\<forall>i < nat (Centroids.count ?c'). i \<noteq> nat k \<longrightarrow>
        \<not> fgt (sq_displacement (Centroids.items p ! i) (Centroids.items ?c' ! i)) EPSILON)"
      using ng by metis
    finally show ?thesis using d ng by blast
  qed
  with upd nan show ?thesis
    by (intro exI [of _ ?c']) simp
qed

theorem empty_cluster_nan_witness:
  "wf_centroids \<lparr>Centroids.items = [\<lparr>Vector2.x = Fin 0, y = Fin 0\<rparr>, \<lparr>Vector2.x = Fin 5, y = Fin 5\<rparr>],
                 count = 2, capacity = 10\<rparr> \<and>
   wf_samples \<lparr>Samples.items = [\<lparr>Sample.x = Fin 0, y = Fin 0, cluster = 0\<rparr>],
               count = 1, capacity = 10\<rparr> \<and>
   cluster_members \<lparr>Samples.items = [\<lparr>Sample.x = Fin 0, y = Fin 0, cluster = 0\<rparr>],
                    count = 1, capacity = 10\<rparr> 1 = [] \<and>
   (\<exists>c'. update_step True
           \<lparr>Centroids.items = [\<lparr>Vector2.x = Fin 0, y = Fin 0\<rparr>, \<lparr>Vector2.x = Fin 5, y = Fin 5\<rparr>],
            count = 2, capacity = 10\<rparr>
           \<lparr>Samples.items = [\<lparr>Sample.x = Fin 0, y = Fin 0, cluster = 0\<rparr>],
            count = 1, capacity = 10\<rparr> = Inr (c', []) \<and>
         Centroids.items c' ! 1 = \<lparr>Vector2.x = NaN, y = NaN\<rparr> \<and>
         \<not> fgt (sq_displacement \<lparr>Vector2.x = Fin 5, y = Fin 5\<rparr> (Centroids.items c' ! 1)) EPSILON)"
proof -
  let ?C = "\<lparr>Centroids.items = [\<lparr>Vector2.x = Fin 0, y = Fin 0\<rparr>, \<lparr>Vector2.x = Fin 5, y = Fin 5\<rparr>],
            count = 2, capacity = 10\<rparr>"
  let ?S = "\<lparr>Samples.items = [\<lparr>Sample.x = Fin 0, y = Fin 0, cluster = 0\<rparr>],
            count = 1, capacity = 10\<rparr>"
  have h: "wf_centroids ?C" "wf_samples ?S" "clusters_valid ?C ?S" "(0::int) \<le> 1"
    "1 < Centroids.count ?C" "cluster_members ?S 1 = []"
    by (simp_all add: wf_centroids_def wf_samples_def clusters_valid_def cluster_members_def)
  have r: "readable ?C"
    by (simp add: readable_def)
  from empty_cluster_nan [OF h] obtain c' where
    u: "update_step True ?C ?S = Inr (c', [])" and n: "Centroids.count c' = Centroids.count ?C" and
    v: "Centroids.items c' ! nat 1 = \<lparr>Vector2.x = NaN, y = NaN\<rparr>" and
    p: "\<forall>p. readable p \<and> Centroids.count p = Centroids.count c' \<longrightarrow>
          \<not> fgt (sq_displacement (Centroids.items p ! nat 1) (Centroids.items c' ! nat 1)) EPSILON"
    by blast
  from p [rule_format, of ?C] r n
  have "\<not> fgt (sq_displacement (Centroids.items ?C ! nat 1) (Centroids.items c' ! nat 1)) EPSILON"
    by simp
  with u v h show ?thesis
    by auto
qed

text \<open>
  The claim as first stated, that the loop never converges while a centroid is NaN, fails:
  with one sample at the first of two centroids, the first cycle leaves the second
  centroid NaN, the test against the snapshot is true, and \<open>run_kmeans\<close> returns.
\<close>

theorem nan_centroid_converges_counterexample:
  "run_kmeans (Some (replicate 10 \<lparr>Vector2.x = Fin 0, y = Fin 0\<rparr>)) 7 all_succeed
     \<lparr>Centroids.items = [\<lparr>Vector2.x = Fin 0, y = Fin 0\<rparr>, \<lparr>Vector2.x = Fin 5, y = Fin 5\<rparr>],
      count = 2, capacity = 10\<rparr>
     \<lparr>Samples.items = [\<lparr>Sample.x = Fin 0, y = Fin 0, cluster = - 1\<rparr>], count = 1, capacity = 10\<rparr>
     (Fin 1) =
   Some (Inr (\<lparr>Centroids.items = [\<lparr>Vector2.x = Fin 0, y = Fin 0\<rparr>, \<lparr>Vector2.x = NaN, y = NaN\<rparr>],
               count = 2, capacity = 10\<rparr>,
              \<lparr>Samples.items = [\<lparr>Sample.x = Fin 0, y = Fin 0, cluster = 0\<rparr>],
               count = 1, capacity = 10\<rparr>,
              Fin 0, [])) \<and>
   converged
     \<lparr>Centroids.items = [\<lparr>Vector2.x = Fin 0, y = Fin 0\<rparr>, \<lparr>Vector2.x = Fin 5, y = Fin 5\<rparr>],
      count = 2, capacity = 10\<rparr>
     \<lparr>Centroids.items = [\<lparr>Vector2.x = Fin 0, y = Fin 0\<rparr>, \<lparr>Vector2.x = NaN, y = NaN\<rparr>],
      count = 2, capacity = 10\<rparr>"
  by code_simp

section \<open>The controller\<close>



text \<open>
  Claim C4. The loop tests \<open>converged\<close> before its first cycle, against the snapshot
  that nothing has initialised yet. When that memory happens to hold the count and the
  positions of the current centroids, the test succeeds and \<open>run_kmeans\<close> returns
  without a single cycle: the sample below is still unassigned and the centroid has not
  moved to it, where one cycle assigns the sample and moves the centroid.
\<close>

theorem run_kmeans_stale_snapshot:
  "run_kmeans (Some (replicate 10 \<lparr>Vector2.x = Fin 0, y = Fin 0\<rparr>)) 1 all_succeed
     \<lparr>Centroids.items = [\<lparr>Vector2.x = Fin 0, y = Fin 0\<rparr>], count = 1, capacity = 10\<rparr>
     \<lparr>Samples.items = [\<lparr>Sample.x = Fin 3, y = Fin 4, cluster = - 1\<rparr>], count = 1, capacity = 10\<rparr>
     (Fin 1) =
   Some (Inr (\<lparr>Centroids.items = [\<lparr>Vector2.x = Fin 0, y = Fin 0\<rparr>], count = 1, capacity = 10\<rparr>,
              \<lparr>Samples.items = [\<lparr>Sample.x = Fin 3, y = Fin 4, cluster = - 1\<rparr>],
               count = 1, capacity = 10\<rparr>,
              Fin 0, []))"
  by code_simp

lemma run_kmeans_one_cycle_example:
  "run_kmeans (Some (replicate 10 \<lparr>Vector2.x = Fin 0, y = Fin 0\<rparr>)) 7 all_succeed
     \<lparr>Centroids.items = [\<lparr>Vector2.x = Fin 0, y = Fin 0\<rparr>], count = 1, capacity = 10\<rparr>
     \<lparr>Samples.items = [\<lparr>Sample.x = Fin 3, y = Fin 4, cluster = - 1\<rparr>], count = 1, capacity = 10\<rparr>
     (Fin 1) =
   Some (Inr (\<lparr>Centroids.items = [\<lparr>Vector2.x = Fin 3, y = Fin 4\<rparr>], count = 1, capacity = 10\<rparr>,
              \<lparr>Samples.items = [\<lparr>Sample.x = Fin 3, y = Fin 4, cluster = 0\<rparr>],
               count = 1, capacity = 10\<rparr>,
              Fin 0, []))"
  by code_simp

end
